theory Spec2Isabelle
  imports Main "HOL-Library.Word"
begin

unbundle bit_operations_syntax

section \<open>Bytes, errors and outcomes\<close>

text \<open>
  A Go \<open>byte\<close>/\<open>uint8\<close>/\<open>int8\<close> is an 8-bit word (\<open>sint\<close> reads it as \<open>int8\<close>),
  \<open>uint16\<close> a 16-bit word, \<open>uint32\<close> a 32-bit word. An \<open>io.Reader\<close> is the list of
  bytes that are still unread; every reading function returns the value it read
  together with the rest of the list. A Go \<open>string\<close> is its byte sequence.
\<close>

type_synonym u8 = "8 word"
type_synonym u16 = "16 word"
type_synonym u32 = "32 word"

text \<open>
  The error values a call can return: \<open>io.EOF\<close>, the truncation error of the byte
  readers, the length-mismatch error \<open>lib.UnexpectedMessageLengthError\<close> with its
  message, and the rejection of an over-long variable-length quantity.
\<close>

datatype error =
    EOF
  | ErrUnexpectedEOF
  | UnexpectedMessageLengthError string
  | ErrVlqTooLong

text \<open>
  The ways a call can panic instead of returning: calling a method on a nil interface
  value, an integer division by zero, \<open>panic("not implemented")\<close>, and the two
  \<open>panic(fmt.Sprintf("must not happen ..."))\<close> of the channel reader (one argument,
  two arguments), which carry the offending type nibble.
\<close>

datatype panic =
    NilPointerDereference
  | IntegerDivideByZero
  | NotImplemented
  | MustNotHappen1 u8
  | MustNotHappen2 u8

text \<open>
  The outcome of a call: it returns a value with a nil error, it returns an error, or
  it panics.
\<close>

datatype 'a outcome = Return 'a | Error error | Panic panic

definition and_then :: "'a outcome \<Rightarrow> ('a \<Rightarrow> 'b outcome) \<Rightarrow> 'b outcome" where
  "and_then m f = (case m of Return x \<Rightarrow> f x | Error e \<Rightarrow> Error e | Panic p \<Rightarrow> Panic p)"

section \<open>Package lib\<close>

text \<open>
  Modelled from the spec: \<open>lib.ParseStatus\<close> is not among the source files. The spec
  (4.2): the decoder splits the status byte into a 4-bit type selector (the high
  nibble) and a 4-bit channel (the low nibble).
\<close>

definition ParseStatus :: "u8 \<Rightarrow> u8 \<times> u8" where
  "ParseStatus b = (drop_bit 4 b, b AND 0x0F)"

text \<open>
  Modelled from the spec: \<open>lib.ReadByte\<close> is not among the source files. The spec
  (6, 7): a sequential read of one byte; truncation is the end of input reached before
  a required byte is read.
\<close>

fun ReadByte :: "u8 list \<Rightarrow> (u8 \<times> u8 list) outcome" where
  "ReadByte [] = Error ErrUnexpectedEOF"
| "ReadByte (b # rd) = Return (b, rd)"

text \<open>
  Modelled from the spec: the helper of package lib that reads N bytes is not among the
  source files. The spec (6, 7): a sequential read of N bytes, with a truncation error
  when the input ends before the payload is fully read.
\<close>

definition ReadNBytes :: "nat \<Rightarrow> u8 list \<Rightarrow> (u8 list \<times> u8 list) outcome" where
  "ReadNBytes n rd =
     (if length rd < n then Error ErrUnexpectedEOF else Return (take n rd, drop n rd))"

text \<open>
  Modelled from the spec: \<open>lib.ReadUint16\<close> and \<open>lib.ReadUint24\<close> are not among the
  source files. The spec (3, 4.4): a 2-byte sequence number and a 3-byte big-endian
  unsigned integer.
\<close>

definition ReadUint16 :: "u8 list \<Rightarrow> (u16 \<times> u8 list) outcome" where
  "ReadUint16 rd =
     and_then (ReadNBytes 2 rd) (\<lambda>(bs, rd').
       Return (push_bit 8 (ucast (bs ! 0)) OR ucast (bs ! 1), rd'))"

definition ReadUint24 :: "u8 list \<Rightarrow> (u32 \<times> u8 list) outcome" where
  "ReadUint24 rd =
     and_then (ReadNBytes 3 rd) (\<lambda>(bs, rd').
       Return (push_bit 16 (ucast (bs ! 0)) OR push_bit 8 (ucast (bs ! 1)) OR ucast (bs ! 2),
               rd'))"

text \<open>
  Modelled from the spec: \<open>lib.ReadVarLength\<close> is not among the source files. The spec
  (4.1): decode reads bytes until one without the continuation bit (0x80), seven bits
  per byte with the most significant chunk first; it fails with a truncation error if
  the source ends first, and rejects continuation runs exceeding 4 bytes. The first
  argument counts the bytes already read.
\<close>

fun vlqDecode :: "nat \<Rightarrow> u32 \<Rightarrow> u8 list \<Rightarrow> (u32 \<times> u8 list) outcome" where
  "vlqDecode n acc [] = Error ErrUnexpectedEOF"
| "vlqDecode n acc (b # rd) =
     (let acc' = push_bit 7 acc OR ucast (b AND 0x7F)
      in if b AND 0x80 = 0 then Return (acc', rd)
         else if 3 \<le> n then Error ErrVlqTooLong
         else vlqDecode (Suc n) acc' rd)"

definition ReadVarLength :: "u8 list \<Rightarrow> (u32 \<times> u8 list) outcome" where
  "ReadVarLength rd = vlqDecode 0 0 rd"

text \<open>
  Modelled from the spec: \<open>lib.ReadVarLengthData\<close> and \<open>lib.ReadText\<close> (and the
  \<open>readText\<close> that \<open>ProgramName\<close> calls) are not among the source files. The spec
  (4.3, 4.5): the VLQ length is read first, then exactly that many bytes are copied as
  the payload.
\<close>

definition ReadVarLengthData :: "u8 list \<Rightarrow> (u8 list \<times> u8 list) outcome" where
  "ReadVarLengthData rd =
     and_then (ReadVarLength rd) (\<lambda>(len, rd'). ReadNBytes (unat len) rd')"

definition ReadText :: "u8 list \<Rightarrow> (u8 list \<times> u8 list) outcome" where
  "ReadText rd = ReadVarLengthData rd"

text \<open>
  Modelled from the spec: \<open>lib.VlqEncode\<close> is not among the source files. The spec
  (4.1): big-endian grouping of 7-bit chunks, most significant chunk first, every byte
  except the last has its continuation bit (0x80) set, no redundant leading zero
  chunks. \<open>vlqHigh\<close> writes the chunks above the last one.
\<close>

fun vlqHigh :: "nat \<Rightarrow> u8 list" where
  "vlqHigh n = (if n = 0 then [] else vlqHigh (n div 128) @ [0x80 OR of_nat (n mod 128)])"

definition VlqEncode :: "u32 \<Rightarrow> u8 list" where
  "VlqEncode v = vlqHigh (unat v div 128) @ [of_nat (unat v mod 128)]"

section \<open>Package channel: the reader of one channel message\<close>

text \<open>
  Modelled from the spec: the message types of package channel and their \<open>set\<close>
  methods are not among the source files. The spec (3, 4.2): each variant carries the
  channel plus its one or two data bytes; \<open>NoteOff\<close> has no velocity (the second data
  byte is ignored), \<open>NoteOffPedantic\<close> retains it.
\<close>

datatype ChannelMessage =
    NoteOn u8 u8 u8
  | NoteOff u8 u8
  | NoteOffPedantic u8 u8 u8
  | PolyphonicAfterTouch u8 u8 u8
  | ControlChange u8 u8 u8
  | PitchWheel u8 u8 u8
  | ProgramChange u8 u8
  | AfterTouch u8 u8

text \<open>The zero values \<open>NoteOn{}\<close>, \<open>NoteOff{}\<close>, ... that the reader starts from.\<close>

datatype setter1 = ProgramChange0 | AfterTouch0

datatype setter2 =
  NoteOn0 | NoteOff0 | NoteOffPedantic0 | PolyphonicAfterTouch0 | ControlChange0 | PitchWheel0

fun set1 :: "setter1 \<Rightarrow> u8 \<Rightarrow> u8 \<Rightarrow> ChannelMessage" where
  "set1 ProgramChange0 channel arg = ProgramChange channel arg"
| "set1 AfterTouch0 channel arg = AfterTouch channel arg"

fun set2 :: "setter2 \<Rightarrow> u8 \<Rightarrow> u8 \<Rightarrow> u8 \<Rightarrow> ChannelMessage" where
  "set2 NoteOn0 channel arg1 arg2 = NoteOn channel arg1 arg2"
| "set2 NoteOff0 channel arg1 arg2 = NoteOff channel arg1"
| "set2 NoteOffPedantic0 channel arg1 arg2 = NoteOffPedantic channel arg1 arg2"
| "set2 PolyphonicAfterTouch0 channel arg1 arg2 = PolyphonicAfterTouch channel arg1 arg2"
| "set2 ControlChange0 channel arg1 arg2 = ControlChange channel arg1 arg2"
| "set2 PitchWheel0 channel arg1 arg2 = PitchWheel channel arg1 arg2"

definition byteProgramChange :: u8 where "byteProgramChange = 0xC"
definition byteChannelPressure :: u8 where "byteChannelPressure = 0xD"
definition byteNoteOff :: u8 where "byteNoteOff = 0x8"
definition byteNoteOn :: u8 where "byteNoteOn = 0x9"
definition bytePolyphonicKeyPressure :: u8 where "bytePolyphonicKeyPressure = 0xA"
definition byteControlChange :: u8 where "byteControlChange = 0xB"
definition bytePitchWheel :: u8 where "bytePitchWheel = 0xE"

text \<open>The struct \<open>reader\<close>; the field \<open>done\<close> is written \<open>done'\<close>.\<close>

record reader =
  input :: "u8 list"
  status :: u8
  done' :: bool
  readNoteOffPedantic :: bool

type_synonym ReaderOption = "reader \<Rightarrow> reader"

definition ReadNoteOffPedantic :: ReaderOption where
  "ReadNoteOffPedantic = (\<lambda>rd. rd\<lparr>readNoteOffPedantic := True\<rparr>)"

definition NewReader :: "u8 list \<Rightarrow> u8 \<Rightarrow> ReaderOption list \<Rightarrow> reader" where
  "NewReader inp st options =
     fold (\<lambda>opt rd. opt rd) options
       \<lparr>input = inp, status = st, done' = False, readNoteOffPedantic = False\<rparr>"

definition getMsg1 :: "reader \<Rightarrow> u8 \<Rightarrow> u8 \<Rightarrow> u8 \<Rightarrow> ChannelMessage outcome" where
  "getMsg1 r typ channel arg =
     and_then
       (if typ = byteProgramChange then Return ProgramChange0
        else if typ = byteChannelPressure then Return AfterTouch0
        else Panic (MustNotHappen1 typ))
       (\<lambda>msg. Return (set1 msg channel arg))"

definition getMsg2 :: "reader \<Rightarrow> u8 \<Rightarrow> u8 \<Rightarrow> u8 \<Rightarrow> u8 \<Rightarrow> ChannelMessage outcome" where
  "getMsg2 r typ channel arg1 arg2 =
     and_then
       (if typ = byteNoteOff then
          (if readNoteOffPedantic r then Return NoteOffPedantic0 else Return NoteOff0)
        else if typ = byteNoteOn then Return NoteOn0
        else if typ = bytePolyphonicKeyPressure then Return PolyphonicAfterTouch0
        else if typ = byteControlChange then Return ControlChange0
        else if typ = bytePitchWheel then Return PitchWheel0
        else Panic (MustNotHappen2 typ))
       (\<lambda>msg0.
          (case set2 msg0 channel arg1 arg2 of
             NoteOn c k velocity \<Rightarrow>
               if velocity = 0 then Return (set2 NoteOff0 channel arg1 0)
               else Return (NoteOn c k velocity)
           | msg \<Rightarrow> Return msg))"

text \<open>
  \<open>Read\<close> returns the outcome of the call and the reader as the call leaves it (also
  when the call panics: \<open>r.done = true\<close> has been executed by then).
\<close>

definition Read :: "reader \<Rightarrow> ChannelMessage outcome \<times> reader" where
  "Read r =
     (if done' r then (Error EOF, r)
      else
        let (typ, channel) = ParseStatus (status r) in
        (case ReadByte (input r) of
           Error err \<Rightarrow> (Error err, r\<lparr>done' := True\<rparr>)
         | Panic p \<Rightarrow> (Panic p, r\<lparr>done' := True\<rparr>)
         | Return (arg1, rd1) \<Rightarrow>
             let r1 = r\<lparr>input := rd1, done' := True\<rparr> in
             if typ = byteProgramChange \<or> typ = byteChannelPressure
             then (getMsg1 r1 typ channel arg1, r1)
             else
               (case ReadByte rd1 of
                  Error err \<Rightarrow> (Error err, r1)
                | Panic p \<Rightarrow> (Panic p, r1)
                | Return (arg2, rd2) \<Rightarrow>
                    let r2 = r1\<lparr>input := rd2\<rparr> in
                    (getMsg2 r2 typ channel arg1 arg2, r2))))"

text \<open>The reader after \<open>n\<close> further calls of \<open>Read\<close>.\<close>

definition afterReads :: "nat \<Rightarrow> reader \<Rightarrow> reader" where
  "afterReads n r = ((\<lambda>s. snd (Read s)) ^^ n) r"

section \<open>Package meta\<close>

subsection \<open>The wire form of a meta message\<close>

record metaMessage =
  Typ :: u8
  Data :: "u8 list"

definition Bytes :: "metaMessage \<Rightarrow> u8 list" where
  "Bytes m =
     (let b = [0xFF, Typ m];
          b = b @ VlqEncode (of_nat (length (Data m)))
      in if length (Data m) \<noteq> 0 then b @ Data m else b)"

subsection \<open>Constants\<close>

definition degreeC :: u8 where "degreeC = 0"
definition degreeD :: u8 where "degreeD = 2"
definition degreeDs :: u8 where "degreeDs = 3"
definition degreeEf :: u8 where "degreeEf = degreeDs"
definition degreeA :: u8 where "degreeA = 9"

definition majorMode :: u8 where "majorMode = 0"
definition minorMode :: u8 where "minorMode = 1"

definition byteEndOfTrack :: u8 where "byteEndOfTrack = 0x2F"
definition byteSequenceNumber :: u8 where "byteSequenceNumber = 0x00"
definition byteText :: u8 where "byteText = 0x01"
definition byteCopyright :: u8 where "byteCopyright = 0x02"
definition byteSequence :: u8 where "byteSequence = 0x03"
definition byteTrackInstrument :: u8 where "byteTrackInstrument = 0x04"
definition byteLyric :: u8 where "byteLyric = 0x05"
definition byteMarker :: u8 where "byteMarker = 0x06"
definition byteCuePoint :: u8 where "byteCuePoint = 0x07"
definition byteMIDIChannel :: u8 where "byteMIDIChannel = 0x20"
definition byteDevicePort :: u8 where "byteDevicePort = 0x9"
definition byteMIDIPort :: u8 where "byteMIDIPort = 0x21"
definition byteTempo :: u8 where "byteTempo = 0x51"
definition byteTimeSignature :: u8 where "byteTimeSignature = 0x58"
definition byteKeySignature :: u8 where "byteKeySignature = 0x59"
definition byteSequencerSpecificInfo :: u8 where "byteSequencerSpecificInfo = 0x7F"

subsection \<open>The message variants\<close>

text \<open>
  The implementations of the interface \<open>Message\<close>. \<open>endOfTrack\<close> is a named
  \<open>bool\<close>, the text family are named strings, \<open>TimeSignature\<close>, \<open>KeySignature\<close> and
  \<open>Undefined\<close> are structs (fields in the order of the source). A nil \<open>Message\<close> is
  \<open>None\<close> of \<open>Message option\<close>.
\<close>

datatype Message =
    endOfTrack bool
  | MIDIPort u8
  | MIDIChannel u8
  | Tempo u32
  | SequenceNumber u16
  | TimeSignature (Numerator: u8) (Denominator: u8)
  | KeySignature (Key: u8) (IsMajor: bool) (Num: u8) (IsFlat: bool)
  | Undefined u8 "u8 list"
  | DevicePort "u8 list"
  | Text "u8 list"
  | Copyright "u8 list"
  | Sequence "u8 list"
  | TrackInstrument "u8 list"
  | Marker "u8 list"
  | Lyric "u8 list"
  | CuePoint "u8 list"
  | ProgramName "u8 list"

definition EndOfTrack :: Message where
  "EndOfTrack = endOfTrack True"

subsection \<open>Decoding: the \<open>readFrom\<close> methods\<close>

definition endOfTrack_readFrom :: "Message \<Rightarrow> u8 list \<Rightarrow> (Message \<times> u8 list) outcome" where
  "endOfTrack_readFrom m rd =
     and_then (ReadVarLength rd) (\<lambda>(len, rd1).
       if len \<noteq> 0 then Error (UnexpectedMessageLengthError ''EndOfTrack expected length 0'')
       else Return (m, rd1))"

definition MIDIPort_readFrom :: "u8 list \<Rightarrow> (Message \<times> u8 list) outcome" where
  "MIDIPort_readFrom rd =
     and_then (ReadVarLength rd) (\<lambda>(len, rd1).
       if len \<noteq> 1
       then Error (UnexpectedMessageLengthError ''MIDI Port Message expected length 1'')
       else and_then (ReadByte rd1) (\<lambda>(port, rd2). Return (MIDIPort port, rd2)))"

definition MIDIChannel_readFrom :: "u8 list \<Rightarrow> (Message \<times> u8 list) outcome" where
  "MIDIChannel_readFrom rd =
     and_then (ReadVarLength rd) (\<lambda>(len, rd1).
       if len \<noteq> 1
       then Error (UnexpectedMessageLengthError ''Midi Channel Message expected length 1'')
       else and_then (ReadByte rd1) (\<lambda>(ch, rd2). Return (MIDIChannel ch, rd2)))"

text \<open>
  \<open>bpm = 60000000 / microsecondsPerCrotchet\<close> is a \<open>uint32\<close> division with no test of
  the divisor: Go panics when it is zero.
\<close>

definition Tempo_readFrom :: "u8 list \<Rightarrow> (Message \<times> u8 list) outcome" where
  "Tempo_readFrom rd =
     and_then (ReadVarLength rd) (\<lambda>(len, rd1).
       if len \<noteq> 3 then Error (UnexpectedMessageLengthError ''Tempo expected length 3'')
       else and_then (ReadUint24 rd1) (\<lambda>(microsecondsPerCrotchet, rd2).
         if microsecondsPerCrotchet = 0 then Panic IntegerDivideByZero
         else Return (Tempo (60000000 div microsecondsPerCrotchet), rd2)))"

text \<open>The length is read with \<open>lib.ReadByte\<close> here, and only compared with 0.\<close>

definition SequenceNumber_readFrom :: "u8 list \<Rightarrow> (Message \<times> u8 list) outcome" where
  "SequenceNumber_readFrom rd =
     and_then (ReadByte rd) (\<lambda>(len, rd1).
       if len = 0 then Return (SequenceNumber 0, rd1)
       else and_then (ReadUint16 rd1) (\<lambda>(sequenceNumber, rd2).
         Return (SequenceNumber sequenceNumber, rd2)))"

text \<open>
  \<open>2 << (bin - 1)\<close> is a shift of the \<open>uint8\<close> 2 by the \<open>uint8\<close> count \<open>bin - 1\<close>
  (which wraps to 255 for \<open>bin = 0\<close>); bits shifted beyond the eighth are lost.
\<close>

definition bin2decDenom :: "u8 \<Rightarrow> u8" where
  "bin2decDenom bin = (if bin = 0 then 1 else push_bit (unat (bin - 1)) 2)"

text \<open>The loop \<open>for dec > 2 { bin++; dec = dec >> 1 }\<close>, returning \<open>bin\<close> at its exit.\<close>

function dec2binLoop :: "u8 \<Rightarrow> u8 \<Rightarrow> u8" where
  "dec2binLoop dec bin =
     (if 2 < dec then dec2binLoop (drop_bit 1 dec) (bin + 1) else bin)"
  by pat_completeness auto
termination
proof (relation "measure (\<lambda>(dec, bin). unat dec)")
  show "wf (measure (\<lambda>(dec :: u8, bin :: u8). unat dec))"
    by simp
next
  fix dec bin :: u8
  assume "2 < dec"
  then have "2 < unat dec"
    by (simp add: word_less_nat_alt)
  then have "unat dec div 2 < unat dec"
    by simp
  then show "((drop_bit 1 dec, bin + 1), (dec, bin)) \<in> measure (\<lambda>(dec, bin). unat dec)"
    by (simp add: unat_drop_bit_eq drop_bit_eq_div unat_div)
qed

definition dec2binDenom :: "u8 \<Rightarrow> u8" where
  "dec2binDenom dec = (if dec \<le> 1 then 0 else dec2binLoop dec 0 + 1)"

definition TimeSignature_readFrom :: "u8 list \<Rightarrow> (Message \<times> u8 list) outcome" where
  "TimeSignature_readFrom rd =
     and_then (ReadVarLength rd) (\<lambda>(len, rd0).
       if len \<noteq> 4
       then Error (UnexpectedMessageLengthError ''TimeSignature expected length 4'')
       else
         and_then (ReadByte rd0) (\<lambda>(numerator, rd1).
         and_then (ReadByte rd1) (\<lambda>(denomenator, rd2).
         and_then (ReadByte rd2) (\<lambda>(clocksPerClick, rd3).
         and_then (ReadByte rd3) (\<lambda>(demiSemiQuaverPerQuarter, rd4).
           Return (TimeSignature numerator (push_bit (unat (denomenator - 1)) 2), rd4))))))"

text \<open>The loop \<open>for tmp < 0 { tmp += 12 }\<close> on the Go \<open>int\<close> \<open>tmp\<close>.\<close>

function clampOctave :: "int \<Rightarrow> int" where
  "clampOctave tmp = (if tmp < 0 then clampOctave (tmp + 12) else tmp)"
  by pat_completeness auto
termination
  by (relation "measure (\<lambda>tmp. nat (- tmp))") auto

text \<open>
  \<open>tmp := int(sharpsOrFlats * 7)\<close>: the product is taken in \<open>int8\<close> (it wraps) and
  then converted. After the loop \<open>tmp\<close> is not negative, where Go's \<open>%\<close> is \<open>mod\<close>.
\<close>

definition keyFromSharpsOrFlats :: "u8 \<Rightarrow> u8 \<Rightarrow> u8" where
  "keyFromSharpsOrFlats sharpsOrFlats mode =
     (let tmp = sint (sharpsOrFlats * 7);
          tmp = (if mode = minorMode then tmp - 3 else tmp);
          tmp = clampOctave tmp
      in of_int (tmp mod 12))"

definition KeySignature_readFrom :: "u8 list \<Rightarrow> (Message \<times> u8 list) outcome" where
  "KeySignature_readFrom rd =
     and_then (ReadVarLength rd) (\<lambda>(len, rd0).
       if len \<noteq> 2
       then Error (UnexpectedMessageLengthError ''KeySignature expected length 2'')
       else
         and_then (ReadByte rd0) (\<lambda>(b, rd1).
           let sharpsOrFlats = b in
           and_then (ReadByte rd1) (\<lambda>(mode, rd2).
             let num = (if sint sharpsOrFlats < 0 then sharpsOrFlats * (- 1) else sharpsOrFlats);
                 key = keyFromSharpsOrFlats sharpsOrFlats mode
             in Return (KeySignature key (mode = majorMode) num (sint sharpsOrFlats < 0), rd2))))"

definition Undefined_readFrom :: "u8 \<Rightarrow> u8 list \<Rightarrow> (Message \<times> u8 list) outcome" where
  "Undefined_readFrom typ rd =
     and_then (ReadVarLengthData rd) (\<lambda>(data, rd1). Return (Undefined typ data, rd1))"

definition DevicePort_readFrom :: "u8 list \<Rightarrow> (Message \<times> u8 list) outcome" where
  "DevicePort_readFrom rd = and_then (ReadText rd) (\<lambda>(text, rd1). Return (DevicePort text, rd1))"

definition Text_readFrom :: "u8 list \<Rightarrow> (Message \<times> u8 list) outcome" where
  "Text_readFrom rd = and_then (ReadText rd) (\<lambda>(text, rd1). Return (Text text, rd1))"

definition Copyright_readFrom :: "u8 list \<Rightarrow> (Message \<times> u8 list) outcome" where
  "Copyright_readFrom rd = and_then (ReadText rd) (\<lambda>(text, rd1). Return (Copyright text, rd1))"

definition Sequence_readFrom :: "u8 list \<Rightarrow> (Message \<times> u8 list) outcome" where
  "Sequence_readFrom rd = and_then (ReadText rd) (\<lambda>(text, rd1). Return (Sequence text, rd1))"

definition TrackInstrument_readFrom :: "u8 list \<Rightarrow> (Message \<times> u8 list) outcome" where
  "TrackInstrument_readFrom rd =
     and_then (ReadText rd) (\<lambda>(text, rd1). Return (TrackInstrument text, rd1))"

definition Marker_readFrom :: "u8 list \<Rightarrow> (Message \<times> u8 list) outcome" where
  "Marker_readFrom rd = and_then (ReadText rd) (\<lambda>(text, rd1). Return (Marker text, rd1))"

definition Lyric_readFrom :: "u8 list \<Rightarrow> (Message \<times> u8 list) outcome" where
  "Lyric_readFrom rd = and_then (ReadText rd) (\<lambda>(text, rd1). Return (Lyric text, rd1))"

definition CuePoint_readFrom :: "u8 list \<Rightarrow> (Message \<times> u8 list) outcome" where
  "CuePoint_readFrom rd = and_then (ReadText rd) (\<lambda>(text, rd1). Return (CuePoint text, rd1))"

definition ProgramName_readFrom :: "u8 list \<Rightarrow> (Message \<times> u8 list) outcome" where
  "ProgramName_readFrom rd =
     and_then (ReadText rd) (\<lambda>(text, rd1). Return (ProgramName text, rd1))"

text \<open>The method call \<open>m.readFrom(rd)\<close> on a non-nil \<open>Message\<close>.\<close>

fun readFrom :: "Message \<Rightarrow> u8 list \<Rightarrow> (Message \<times> u8 list) outcome" where
  "readFrom (endOfTrack b) rd = endOfTrack_readFrom (endOfTrack b) rd"
| "readFrom (MIDIPort m) rd = MIDIPort_readFrom rd"
| "readFrom (MIDIChannel m) rd = MIDIChannel_readFrom rd"
| "readFrom (Tempo m) rd = Tempo_readFrom rd"
| "readFrom (SequenceNumber m) rd = SequenceNumber_readFrom rd"
| "readFrom (TimeSignature n d) rd = TimeSignature_readFrom rd"
| "readFrom (KeySignature k mj n fl) rd = KeySignature_readFrom rd"
| "readFrom (Undefined typ data) rd = Undefined_readFrom typ rd"
| "readFrom (DevicePort m) rd = DevicePort_readFrom rd"
| "readFrom (Text m) rd = Text_readFrom rd"
| "readFrom (Copyright m) rd = Copyright_readFrom rd"
| "readFrom (Sequence m) rd = Sequence_readFrom rd"
| "readFrom (TrackInstrument m) rd = TrackInstrument_readFrom rd"
| "readFrom (Marker m) rd = Marker_readFrom rd"
| "readFrom (Lyric m) rd = Lyric_readFrom rd"
| "readFrom (CuePoint m) rd = CuePoint_readFrom rd"
| "readFrom (ProgramName m) rd = ProgramName_readFrom rd"

subsection \<open>The registry and the dispatch\<close>

text \<open>
  The map \<open>metaMessages\<close>, with its entries in the order of the source; the entry of
  \<open>byteSequencerSpecificInfo\<close> is nil. \<open>Dispatch\<close> indexes the map, which gives nil
  for a key that is absent.
\<close>

definition metaMessages :: "(u8 \<times> Message option) list" where
  "metaMessages =
     [(byteEndOfTrack, Some EndOfTrack),
      (byteSequenceNumber, Some (SequenceNumber 0)),
      (byteText, Some (Text [])),
      (byteCopyright, Some (Copyright [])),
      (byteSequence, Some (Sequence [])),
      (byteTrackInstrument, Some (TrackInstrument [])),
      (byteLyric, Some (Lyric [])),
      (byteMarker, Some (Marker [])),
      (byteCuePoint, Some (CuePoint [])),
      (byteMIDIChannel, Some (MIDIChannel 0)),
      (byteDevicePort, Some (DevicePort [])),
      (byteMIDIPort, Some (MIDIPort 0)),
      (byteTempo, Some (Tempo 0)),
      (byteTimeSignature, Some (TimeSignature 0 0)),
      (byteKeySignature, Some (KeySignature 0 False 0 False)),
      (byteSequencerSpecificInfo, None)]"

definition Dispatch :: "u8 \<Rightarrow> Message option" where
  "Dispatch b = (case map_of metaMessages b of Some m \<Rightarrow> m | None \<Rightarrow> None)"

text \<open>
  \<open>ReadFrom\<close> replaces \<open>m\<close> by \<open>Undefined{Typ: typ}\<close> when \<open>m != nil\<close>, and then calls
  \<open>m.readFrom(rd)\<close>; on a nil \<open>m\<close> that call panics.
\<close>

definition ReadFrom :: "u8 \<Rightarrow> u8 list \<Rightarrow> (Message \<times> u8 list) outcome" where
  "ReadFrom typ rd =
     (let m = Dispatch typ;
          m = (if m \<noteq> None then Some (Undefined typ []) else m)
      in case m of
           None \<Rightarrow> Panic NilPointerDereference
         | Some msg \<Rightarrow> readFrom msg rd)"

subsection \<open>Encoding: the \<open>Raw\<close> methods\<close>

text \<open>
  \<open>Tempo.Raw\<close> computes in \<open>float64\<close> and is left out. \<open>DevicePort.Raw\<close> is
  \<open>panic("not implemented")\<close>, so the \<open>Raw\<close> methods return an outcome.
\<close>

definition endOfTrack_Raw :: "u8 list outcome" where
  "endOfTrack_Raw = Return (Bytes \<lparr>Typ = byteEndOfTrack, Data = []\<rparr>)"

definition MIDIPort_Raw :: "u8 \<Rightarrow> u8 list outcome" where
  "MIDIPort_Raw m = Return (Bytes \<lparr>Typ = byteMIDIPort, Data = [m]\<rparr>)"

definition MIDIChannel_Raw :: "u8 \<Rightarrow> u8 list outcome" where
  "MIDIChannel_Raw m = Return (Bytes \<lparr>Typ = byteMIDIChannel, Data = [m]\<rparr>)"

definition SequenceNumber_Raw :: "u16 \<Rightarrow> u8 list outcome" where
  "SequenceNumber_Raw m =
     Return (Bytes \<lparr>Typ = byteSequenceNumber, Data = [ucast (drop_bit 8 m), ucast m]\<rparr>)"

definition TimeSignature_Raw :: "u8 \<Rightarrow> u8 \<Rightarrow> u8 list outcome" where
  "TimeSignature_Raw numerator denominator =
     (let cpcl = 8;
          dsqpq = 8;
          denom = dec2binDenom denominator
      in Return (Bytes \<lparr>Typ = byteTimeSignature, Data = [numerator, denom, cpcl, dsqpq]\<rparr>))"

definition KeySignature_Raw :: "u8 \<Rightarrow> bool \<Rightarrow> u8 \<Rightarrow> bool \<Rightarrow> u8 list outcome" where
  "KeySignature_Raw key isMajor num isFlat =
     (let mi = (if \<not> isMajor then 1 else 0);
          sf = num;
          sf = (if isFlat then sf * (- 1) else sf)
      in Return (Bytes \<lparr>Typ = byteKeySignature, Data = [sf, mi]\<rparr>))"

definition Undefined_Raw :: "u8 \<Rightarrow> u8 list \<Rightarrow> u8 list outcome" where
  "Undefined_Raw typ data = Return (Bytes \<lparr>Typ = typ, Data = data\<rparr>)"

definition DevicePort_Raw :: "u8 list \<Rightarrow> u8 list outcome" where
  "DevicePort_Raw m = Panic NotImplemented"

definition Text_Raw :: "u8 list \<Rightarrow> u8 list outcome" where
  "Text_Raw m = Return (Bytes \<lparr>Typ = byteText, Data = m\<rparr>)"

definition Copyright_Raw :: "u8 list \<Rightarrow> u8 list outcome" where
  "Copyright_Raw m = Return (Bytes \<lparr>Typ = byteCopyright, Data = m\<rparr>)"

definition Sequence_Raw :: "u8 list \<Rightarrow> u8 list outcome" where
  "Sequence_Raw m = Return (Bytes \<lparr>Typ = byteSequence, Data = m\<rparr>)"

definition TrackInstrument_Raw :: "u8 list \<Rightarrow> u8 list outcome" where
  "TrackInstrument_Raw m = Return (Bytes \<lparr>Typ = byteTrackInstrument, Data = m\<rparr>)"

definition Marker_Raw :: "u8 list \<Rightarrow> u8 list outcome" where
  "Marker_Raw m = Return (Bytes \<lparr>Typ = byteMarker, Data = m\<rparr>)"

definition Lyric_Raw :: "u8 list \<Rightarrow> u8 list outcome" where
  "Lyric_Raw m = Return (Bytes \<lparr>Typ = byteLyric, Data = m\<rparr>)"

definition CuePoint_Raw :: "u8 list \<Rightarrow> u8 list outcome" where
  "CuePoint_Raw m = Return (Bytes \<lparr>Typ = byteCuePoint, Data = m\<rparr>)"

section \<open>Evaluation rules\<close>

declare vlqHigh.simps [simp del]
declare dec2binLoop.simps [simp del]
declare clampOctave.simps [simp del]

lemmas channel_bytes =
  byteProgramChange_def byteChannelPressure_def byteNoteOff_def byteNoteOn_def
  bytePolyphonicKeyPressure_def byteControlChange_def bytePitchWheel_def

lemmas meta_bytes =
  byteEndOfTrack_def byteSequenceNumber_def byteText_def byteCopyright_def
  byteSequence_def byteTrackInstrument_def byteLyric_def byteMarker_def
  byteCuePoint_def byteMIDIChannel_def byteDevicePort_def byteMIDIPort_def
  byteTempo_def byteTimeSignature_def byteKeySignature_def
  byteSequencerSpecificInfo_def

lemmas lib_defs =
  and_then_def ReadVarLength_def ReadVarLengthData_def ReadText_def ReadNBytes_def
  ReadUint16_def ReadUint24_def

section \<open>The meta dispatch\<close>

text \<open>
  Claim C1 (what the code does at the claim's input). \<open>ReadFrom\<close> tests \<open>m != nil\<close>
  where the fallback needs \<open>m == nil\<close>. For the unregistered type 0x50 with declared
  length 3 and payload 01 02 03, \<open>Dispatch\<close> gives nil, nothing replaces it, and the
  call \<open>m.readFrom\<close> on the nil interface panics: no \<open>Undefined\<close> value is returned.
  For a registered type such as \<open>byteEndOfTrack\<close> the registered codec is replaced by
  \<open>Undefined\<close>, so the event FF 2F 00 decodes to \<open>Undefined\<close> and not to
  \<open>EndOfTrack\<close>. The encoding half of the claim holds: \<open>Raw\<close> of
  \<open>Undefined{0x50, [1,2,3]}\<close> is FF 50 03 01 02 03.
\<close>

theorem ReadFrom_unknown_type_panics:
  "ReadFrom 0x50 [0x03, 0x01, 0x02, 0x03] = Panic NilPointerDereference \<and>
   ReadFrom byteEndOfTrack [0x00] = Return (Undefined 0x2F [], []) \<and>
   Undefined_Raw 0x50 [0x01, 0x02, 0x03] = Return [0xFF, 0x50, 0x03, 0x01, 0x02, 0x03]"
  by (simp add: ReadFrom_def Dispatch_def metaMessages_def meta_bytes EndOfTrack_def
      Undefined_readFrom_def Undefined_Raw_def Bytes_def VlqEncode_def vlqHigh.simps lib_defs)

section \<open>Note-off in pedantic mode\<close>

text \<open>
  Claim C2 (what the code does at the claim's inputs). With the option
  \<open>ReadNoteOffPedantic\<close>, \<open>getMsg2\<close> builds \<open>NoteOffPedantic\<close> for the literal
  note-off status (high nibble 0x8), keeping its velocity, and the note-on with
  velocity 0 (high nibble 0x9) is still rewritten to a plain \<open>NoteOff\<close>: the two
  variants are the other way round from what the comment of \<open>ReadNoteOffPedantic\<close>
  and the claim say. Here: status 0x82 with data 3C 40, and status 0x92 with data
  3C 00.
\<close>

theorem Read_pedantic_variants_swapped:
  "fst (Read (NewReader [0x3C, 0x40] 0x82 [ReadNoteOffPedantic]))
     = Return (NoteOffPedantic 2 0x3C 0x40) \<and>
   fst (Read (NewReader [0x3C, 0x00] 0x92 [ReadNoteOffPedantic]))
     = Return (NoteOff 2 0x3C)"
  by (simp add: Read_def NewReader_def ReadNoteOffPedantic_def ParseStatus_def channel_bytes
      getMsg2_def and_then_def)

section \<open>Tempo\<close>

text \<open>
  Claim C3 (what the code does at the claim's input). A tempo event with declared
  length 3 and the payload 00 00 00 (0 microseconds per quarter note) reaches the
  division \<open>60000000 / microsecondsPerCrotchet\<close> with a zero divisor: the call panics
  and no error value is returned.
\<close>

theorem Tempo_readFrom_zero_panics:
  "Tempo_readFrom [0x03, 0x00, 0x00, 0x00] = Panic IntegerDivideByZero"
  by (simp add: Tempo_readFrom_def lib_defs)

section \<open>Time signature\<close>

lemma shl_two: "push_bit n (2::u8) = 2 ^ Suc n"
  by (simp add: push_bit_eq_mult)

lemma shl_pred:
  assumes "e \<noteq> 0"
  shows "push_bit (unat (e - 1)) (2::u8) = 2 ^ unat e"
proof -
  from assms have "0 < unat e"
    by (simp add: unat_gt_0)
  moreover from assms have "unat (e - 1) = unat e - 1"
    by (rule unat_minus_one)
  ultimately have "Suc (unat (e - 1)) = unat e"
    by simp
  then show ?thesis
    by (simp only: shl_two)
qed

lemma unat_two_power:
  assumes "n < 8"
  shows "unat ((2::u8) ^ n) = 2 ^ n"
proof -
  from assms have "(0::u8) < 2 ^ n"
    by (simp add: word_gt_0)
  then have "uint ((2::u8) ^ n) = 2 ^ n"
    by (rule uint_2p)
  then show ?thesis
    by (simp add: unat_eq_nat_uint)
qed

lemma unat_minus_1_u8: "unat (- 1 :: u8) = 255"
  by (simp add: unsigned_minus_1_eq_mask mask_eq_exp_minus_1)

lemma shl_wrapped_count: "push_bit (unat (- 1 :: u8)) (2::u8) = 0"
  by (simp only: unat_minus_1_u8 shl_two exp_eq_zero_iff) simp

text \<open>
  Claim C4, as stated, fails: with the exponent byte 8 the shift \<open>2 << 7\<close> leaves the
  \<open>uint8\<close> field, and the decoded denominator is 0, not \<open>2 ^ 8\<close>.
\<close>

theorem TimeSignature_readFrom_exponent_8:
  "TimeSignature_readFrom [0x04, 0x03, 0x08, 0x18, 0x08] = Return (TimeSignature 3 0, []) \<and>
   unat (0 :: u8) \<noteq> 2 ^ unat (8 :: u8)"
  by (simp add: TimeSignature_readFrom_def lib_defs)

text \<open>
  Claim C4, amended. For every time signature event whose declared length is 4 and
  whose exponent byte \<open>e\<close> is between 1 and 7, the decoded value has the numerator byte
  as \<open>Numerator\<close> and \<open>2 ^ e\<close> as \<open>Denominator\<close> (which fits the \<open>uint8\<close> field), and
  the four payload bytes are consumed; \<open>e = 2\<close> gives 4.
\<close>

theorem TimeSignature_readFrom_denominator:
  assumes "ReadVarLength rd =
             Return (4, numerator # e # clocksPerClick # demiSemiQuaverPerQuarter # rest)"
    and "1 \<le> e" and "e \<le> 7"
  shows "TimeSignature_readFrom rd = Return (TimeSignature numerator (2 ^ unat e), rest) \<and>
         unat ((2::u8) ^ unat e) = 2 ^ unat e"
proof -
  from assms(2) have "e \<noteq> 0"
    by auto
  then have shift: "push_bit (unat (e - 1)) (2::u8) = 2 ^ unat e"
    by (rule shl_pred)
  from assms(3) have "unat e < 8"
    by (simp add: word_le_nat_alt)
  then have "unat ((2::u8) ^ unat e) = 2 ^ unat e"
    by (rule unat_two_power)
  moreover
  have "TimeSignature_readFrom rd = Return (TimeSignature numerator (2 ^ unat e), rest)"
    by (simp add: TimeSignature_readFrom_def and_then_def assms(1) shift)
  ultimately show ?thesis
    by simp
qed

theorem TimeSignature_readFrom_denominator_witness:
  "ReadVarLength [0x04, 0x04, 0x02, 0x18, 0x08] = Return (4, [0x04, 0x02, 0x18, 0x08]) \<and>
   (1 :: u8) \<le> 2 \<and> (2 :: u8) \<le> 7 \<and>
   TimeSignature_readFrom [0x04, 0x04, 0x02, 0x18, 0x08] = Return (TimeSignature 4 4, [])"
  using TimeSignature_readFrom_denominator [of "[0x04, 0x04, 0x02, 0x18, 0x08]" 4 2 "0x18" 8 "[]"]
  by (simp add: lib_defs)

text \<open>
  Claim C5 (what the code does at a failing input). \<open>TimeSignature{4, 1}\<close> is encoded
  as FF 58 04 04 00 08 08, the two discarded bytes written as 8 and 8. Decoding the
  bytes after FF 58 does not go through \<open>bin2decDenom\<close>: it shifts 2 by the wrapped
  count \<open>0 - 1 = 255\<close> and returns the denominator 0, so the round trip does not give
  back \<open>TimeSignature{4, 1}\<close>.
\<close>

theorem TimeSignature_roundtrip_denominator_1:
  "TimeSignature_Raw 4 1 = Return [0xFF, 0x58, 0x04, 0x04, 0x00, 0x08, 0x08] \<and>
   TimeSignature_readFrom [0x04, 0x04, 0x00, 0x08, 0x08] = Return (TimeSignature 4 0, []) \<and>
   bin2decDenom 0 = 1"
  by (simp add: TimeSignature_Raw_def dec2binDenom_def bin2decDenom_def Bytes_def
      VlqEncode_def vlqHigh.simps meta_bytes TimeSignature_readFrom_def lib_defs
      shl_wrapped_count)

section \<open>Sequence number\<close>

text \<open>
  Claim C6 (what the code does at a failing input). A sequence number event whose
  declared length is 3 (payload 00 01 02) is not rejected: the length byte is only
  compared with 0, two bytes are read as the number, \<open>SequenceNumber(1)\<close> is returned
  with a nil error, and the third payload byte is left unread.
\<close>

theorem SequenceNumber_readFrom_length_3:
  "SequenceNumber_readFrom [0x03, 0x00, 0x01, 0x02] = Return (SequenceNumber 1, [0x02])"
  by (simp add: SequenceNumber_readFrom_def lib_defs)

section \<open>Key signature\<close>

lemma keyFromSharpsOrFlats_19_major: "keyFromSharpsOrFlats 0x13 0 = 9"
  unfolding keyFromSharpsOrFlats_def Let_def minorMode_def
  by (simp add: clampOctave.simps)

text \<open>
  Claim C7 (what the code does at a failing input). For \<open>sf = 19\<close> (byte 0x13) in a
  major key the product \<open>sharpsOrFlats * 7\<close> is taken in \<open>int8\<close>, where 133 wraps to
  -123, and the decoded \<open>Key\<close> is 9; the formula of the claim gives
  \<open>(19 * 7 - 0) mod 12 = 1\<close>.
\<close>

theorem KeySignature_readFrom_19_sharps:
  "KeySignature_readFrom [0x02, 0x13, 0x00] = Return (KeySignature 9 True 19 False, []) \<and>
   (sint (0x13 :: u8) * 7 - 0) mod 12 = 1"
proof
  show "KeySignature_readFrom [0x02, 0x13, 0x00] = Return (KeySignature 9 True 19 False, [])"
    by (simp add: KeySignature_readFrom_def lib_defs keyFromSharpsOrFlats_19_major majorMode_def)
  show "(sint (0x13 :: u8) * 7 - 0) mod 12 = 1"
    by simp
qed

section \<open>Device port\<close>

text \<open>
  Claim C8 (what the code does at a failing input). The well-formed stream
  03 61 62 63 decodes to \<open>DevicePort("abc")\<close>, and \<open>Raw\<close> on that value is
  \<open>panic("not implemented")\<close>: no bytes are returned.
\<close>

theorem DevicePort_Raw_panics:
  "DevicePort_readFrom [0x03, 0x61, 0x62, 0x63] = Return (DevicePort [0x61, 0x62, 0x63], []) \<and>
   DevicePort_Raw [0x61, 0x62, 0x63] = Panic NotImplemented"
  by (simp add: DevicePort_readFrom_def DevicePort_Raw_def lib_defs)

section \<open>The single-use channel reader\<close>

lemma Read_done: "done' r \<Longrightarrow> Read r = (Error EOF, r)"
  by (simp add: Read_def)

lemma done_after_Read: "done' (snd (Read r))"
  by (auto simp: Read_def Let_def split: prod.splits outcome.splits list.splits)

lemma afterReads_done: "done' r \<Longrightarrow> afterReads n r = r"
  by (induction n) (simp_all add: afterReads_def Read_done)

text \<open>
  Claim C9. Once \<open>Read\<close> has been called on a reader, whatever that call did, every
  later call on the same reader returns \<open>io.EOF\<close> and leaves the byte source as the
  first call left it: after any number \<open>n\<close> of further calls the next call returns
  \<open>io.EOF\<close> and the reader (its input included) is unchanged.
\<close>

theorem Read_single_use:
  "Read (afterReads n (snd (Read r))) = (Error EOF, snd (Read r))"
  by (simp add: afterReads_done done_after_Read Read_done)

section \<open>Status bytes that are no channel message\<close>

text \<open>
  Claim C10. On a reader that has not been read yet, whose status byte has a high
  nibble below 0x8 or above 0xE and whose byte source holds at least two bytes,
  \<open>Read\<close> takes the two-argument path and panics in the default branch of
  \<open>getMsg2\<close>; it does not return an error.
\<close>

theorem Read_panics_on_non_channel_status:
  assumes "\<not> done' r"
    and "drop_bit 4 (status r) < 8 \<or> 0xE < drop_bit 4 (status r)"
    and "2 \<le> length (input r)"
  shows "fst (Read r) = Panic (MustNotHappen2 (drop_bit 4 (status r)))"
proof -
  obtain a b rest where inp: "input r = a # b # rest"
    using assms(3) by (cases "input r"; cases "tl (input r)") auto
  have ne: "drop_bit 4 (status r) \<notin> {0x8, 0x9, 0xA, 0xB, 0xC, 0xD, 0xE}"
    using assms(2) by auto
  show ?thesis
    using assms(1) ne
    by (simp add: Read_def ParseStatus_def inp channel_bytes getMsg2_def and_then_def)
qed

theorem Read_panics_on_non_channel_status_witness:
  "\<not> done' (NewReader [0x3C, 0x40] 0x05 []) \<and>
   drop_bit 4 (status (NewReader [0x3C, 0x40] 0x05 [])) < 8 \<and>
   2 \<le> length (input (NewReader [0x3C, 0x40] 0x05 [])) \<and>
   fst (Read (NewReader [0x3C, 0x40] 0x05 [])) = Panic (MustNotHappen2 0)"
  using Read_panics_on_non_channel_status [of "NewReader [0x3C, 0x40] 0x05 []"]
  by (simp add: NewReader_def)

end
